theory Spec2Isabelle
  imports Complex_Main "HOL-Library.AList"
begin

section \<open>The fuzzy inference engine of the credit-risk backend\<close>

text \<open>
  A shallow embedding of \<^verbatim>\<open>src/services/fuzzy_logic/engine.py\<close> and of
  \<^verbatim>\<open>generate_membership_function_data\<close> in
  \<^verbatim>\<open>src/services/fuzzy_logic/visualization.py\<close>.

  Numbers are modelled as \<^typ>\<open>real\<close>: Python's integers and floats are read as the
  exact values they denote, so rounding of IEEE doubles is outside the model.
  Every exception the Python can raise is a value of \<open>py_error\<close>, and a function that
  can raise returns \<open>py_error + 'a\<close> with \<open>Inl\<close> for the exception.
  A Python \<^verbatim>\<open>dict\<close> is an association list in insertion order, updated with
  \<^const>\<open>AList.update\<close> (an existing key keeps its position) and read with
  \<^const>\<open>map_of\<close>; a missing key is \<open>KeyError\<close>.
\<close>

subsection \<open>Errors\<close>

datatype py_error =
    KeyError
  | ZeroDivisionError
  | UnknownVariable string
  | NegativeSamples

text \<open>
  \<open>UnknownVariable n\<close> is the \<^verbatim>\<open>ValueError(f"Variable {n} not found in FIS")\<close> raised
  by the visualization helpers; \<open>NegativeSamples\<close> is the \<^verbatim>\<open>ValueError\<close> that
  \<^verbatim>\<open>numpy.linspace\<close> raises for a negative number of samples.
\<close>

definition py_div :: "real \<Rightarrow> real \<Rightarrow> py_error + real" where
  "py_div x y = (if y = 0 then Inl ZeroDivisionError else Inr (x / y))"

subsection \<open>Membership functions\<close>

text \<open>
  The classes \<^verbatim>\<open>TriangularMF(name, a, b, c)\<close> and \<^verbatim>\<open>TrapezoidalMF(name, a, b, c, d)\<close>,
  both subclasses of \<^verbatim>\<open>MembershipFunction\<close>, as the two constructors of one datatype.
\<close>

datatype MembershipFunction =
    TriangularMF string real real real
  | TrapezoidalMF string real real real real

fun mf_name :: "MembershipFunction \<Rightarrow> string" where
  "mf_name (TriangularMF n a b c) = n"
| "mf_name (TrapezoidalMF n a b c d) = n"

fun mf_evaluate :: "MembershipFunction \<Rightarrow> real \<Rightarrow> py_error + real" where
  "mf_evaluate (TriangularMF n a b c) x =
     (if x \<le> a \<or> x \<ge> c then Inr 0
      else if x = b then Inr 1
      else if x < b then py_div (x - a) (b - a)
      else py_div (c - x) (c - b))"
| "mf_evaluate (TrapezoidalMF n a b c d) x =
     (if x \<le> a \<or> x \<ge> d then Inr 0
      else if b \<le> x \<and> x \<le> c then Inr 1
      else if x < b then py_div (x - a) (b - a)
      else py_div (d - x) (d - c))"

fun mf_inverse :: "MembershipFunction \<Rightarrow> real \<Rightarrow> real" where
  "mf_inverse (TriangularMF n a b c) y =
     (if y = 0 then b
      else if y \<le> 1 then
        (let x_left = a + y * (b - a);
             x_right = c - y * (c - b)
         in (x_left + x_right) / 2)
      else b)"
| "mf_inverse (TrapezoidalMF n a b c d) y =
     (if y = 0 then (b + c) / 2
      else if y = 1 then (b + c) / 2
      else if y < 1 then
        (let x_left = a + y * (b - a);
             x_right = d - y * (d - c)
         in (x_left + x_right) / 2)
      else (b + c) / 2)"

subsection \<open>Fuzzy variables\<close>

record FuzzyVariable =
  var_name :: string
  var_range :: "real \<times> real"
  membership_functions :: "(string \<times> MembershipFunction) list"

definition FuzzyVariable_init :: "string \<Rightarrow> real \<Rightarrow> real \<Rightarrow> FuzzyVariable" where
  "FuzzyVariable_init n range_min range_max =
     \<lparr>var_name = n, var_range = (range_min, range_max), membership_functions = []\<rparr>"

definition add_membership_function :: "FuzzyVariable \<Rightarrow> MembershipFunction \<Rightarrow> FuzzyVariable" where
  "add_membership_function v mf =
     v\<lparr>membership_functions := AList.update (mf_name mf) mf (membership_functions v)\<rparr>"

text \<open>\<^verbatim>\<open>fuzzify\<close>: the loop over the items of the dictionary, building the result dictionary.\<close>

fun fuzzify_loop ::
  "(string \<times> MembershipFunction) list \<Rightarrow> real \<Rightarrow> (string \<times> real) list
     \<Rightarrow> py_error + (string \<times> real) list" where
  "fuzzify_loop [] x result = Inr result"
| "fuzzify_loop ((n, mf) # rest) x result =
     (case mf_evaluate mf x of
        Inl e \<Rightarrow> Inl e
      | Inr deg \<Rightarrow> fuzzify_loop rest x (AList.update n deg result))"

definition fuzzify :: "FuzzyVariable \<Rightarrow> real \<Rightarrow> py_error + (string \<times> real) list" where
  "fuzzify v x = fuzzify_loop (membership_functions v) x []"

subsection \<open>Fuzzy rules\<close>

type_synonym inputs = "string \<rightharpoonup> real"

record FuzzyRule =
  antecedent_func :: "inputs \<Rightarrow> py_error + real"
  consequent_var :: string
  consequent_term :: string

definition FuzzyRule_evaluate :: "FuzzyRule \<Rightarrow> inputs \<Rightarrow> py_error + real" where
  "FuzzyRule_evaluate rule inp = antecedent_func rule inp"

subsection \<open>The Tsukamoto inference system\<close>

text \<open>
  \<^verbatim>\<open>output_variables\<close> is a Python \<^verbatim>\<open>set\<close>; it is kept as a duplicate-free list
  (\<^const>\<open>List.insert\<close>). The order in which Python iterates a set is not specified;
  the result of \<^verbatim>\<open>evaluate\<close> is a dictionary read by key, modelled as a map, so that
  this order is not visible in it.
\<close>

record TsukamotoFIS =
  variables :: "(string \<times> FuzzyVariable) list"
  rules :: "FuzzyRule list"
  output_variables :: "string list"

definition TsukamotoFIS_init :: TsukamotoFIS where
  "TsukamotoFIS_init = \<lparr>variables = [], rules = [], output_variables = []\<rparr>"

definition add_variable :: "TsukamotoFIS \<Rightarrow> FuzzyVariable \<Rightarrow> bool \<Rightarrow> TsukamotoFIS" where
  "add_variable fis v is_output =
     (let fis' = fis\<lparr>variables := AList.update (var_name v) v (variables fis)\<rparr>
      in if is_output
         then fis'\<lparr>output_variables := List.insert (var_name v) (output_variables fis')\<rparr>
         else fis')"

definition add_rule :: "TsukamotoFIS \<Rightarrow> FuzzyRule \<Rightarrow> TsukamotoFIS" where
  "add_rule fis rule = fis\<lparr>rules := rules fis @ [rule]\<rparr>"

text \<open>The first loop of \<^verbatim>\<open>evaluate\<close>: the firing strength of every rule, in rule order.\<close>

fun rule_results_loop ::
  "FuzzyRule list \<Rightarrow> inputs \<Rightarrow> py_error + (FuzzyRule \<times> real) list" where
  "rule_results_loop [] inp = Inr []"
| "rule_results_loop (rule # rest) inp =
     (case FuzzyRule_evaluate rule inp of
        Inl e \<Rightarrow> Inl e
      | Inr firing_strength \<Rightarrow>
          (case rule_results_loop rest inp of
             Inl e \<Rightarrow> Inl e
           | Inr rr \<Rightarrow> Inr ((rule, firing_strength) # rr)))"

text \<open>
  The inner loop for one output variable; the accumulator is
  \<open>(weighted_sum, weight_sum)\<close>.
\<close>

fun weighted_loop ::
  "(string \<times> FuzzyVariable) list \<Rightarrow> string \<Rightarrow> (FuzzyRule \<times> real) list \<Rightarrow> real \<times> real
     \<Rightarrow> py_error + real \<times> real" where
  "weighted_loop vars output_var [] acc = Inr acc"
| "weighted_loop vars output_var ((rule, firing_strength) # rest) (weighted_sum, weight_sum) =
     (if consequent_var rule = output_var \<and> firing_strength > 0 then
        (case map_of vars output_var of
           None \<Rightarrow> Inl KeyError
         | Some v \<Rightarrow>
             (case map_of (membership_functions v) (consequent_term rule) of
                None \<Rightarrow> Inl KeyError
              | Some mf \<Rightarrow>
                  (let crisp_value = mf_inverse mf firing_strength
                   in weighted_loop vars output_var rest
                        (weighted_sum + crisp_value * firing_strength,
                         weight_sum + firing_strength))))
      else weighted_loop vars output_var rest (weighted_sum, weight_sum))"

text \<open>The outer loop over the output variables, filling the result dictionary.\<close>

fun outputs_loop ::
  "(string \<times> FuzzyVariable) list \<Rightarrow> (FuzzyRule \<times> real) list \<Rightarrow> string list
     \<Rightarrow> (string \<rightharpoonup> real) \<Rightarrow> py_error + (string \<rightharpoonup> real)" where
  "outputs_loop vars rr [] result = Inr result"
| "outputs_loop vars rr (output_var # rest) result =
     (case weighted_loop vars output_var rr (0, 0) of
        Inl e \<Rightarrow> Inl e
      | Inr (weighted_sum, weight_sum) \<Rightarrow>
          (if weight_sum > 0 then
             outputs_loop vars rr rest (result(output_var \<mapsto> weighted_sum / weight_sum))
           else
             (case map_of vars output_var of
                None \<Rightarrow> Inl KeyError
              | Some v \<Rightarrow>
                  outputs_loop vars rr rest
                    (result(output_var \<mapsto> (fst (var_range v) + snd (var_range v)) / 2)))))"

definition evaluate :: "TsukamotoFIS \<Rightarrow> inputs \<Rightarrow> py_error + (string \<rightharpoonup> real)" where
  "evaluate fis inp =
     (case rule_results_loop (rules fis) inp of
        Inl e \<Rightarrow> Inl e
      | Inr rule_results \<Rightarrow>
          outputs_loop (variables fis) rule_results (output_variables fis) Map.empty)"

subsection \<open>The credit-risk rule base\<close>

definition income_var :: FuzzyVariable where
  "income_var =
     add_membership_function
       (add_membership_function
          (add_membership_function (FuzzyVariable_init ''income'' 0 20000000)
             (TrapezoidalMF ''low'' 0 0 2500000 3000000))
          (TriangularMF ''medium'' 2500000 5000000 7000000))
       (TrapezoidalMF ''high'' 6500000 7000000 20000000 20000000)"

definition dependents_var :: FuzzyVariable where
  "dependents_var =
     add_membership_function
       (add_membership_function
          (add_membership_function (FuzzyVariable_init ''dependents'' 0 10)
             (TrapezoidalMF ''few'' 0 0 1 2))
          (TriangularMF ''average'' 1 2 3))
       (TrapezoidalMF ''many'' 3 4 10 10)"

definition credit_history_var :: FuzzyVariable where
  "credit_history_var =
     add_membership_function
       (add_membership_function
          (add_membership_function (FuzzyVariable_init ''credit_history'' 0 10)
             (TrapezoidalMF ''poor'' 0 0 3 4))
          (TriangularMF ''average'' 3 5 7))
       (TrapezoidalMF ''good'' 6 7 10 10)"

definition risk_var :: FuzzyVariable where
  "risk_var =
     add_membership_function
       (add_membership_function
          (add_membership_function (FuzzyVariable_init ''risk'' 0 100)
             (TrapezoidalMF ''low'' 0 0 30 40))
          (TriangularMF ''medium'' 30 50 70))
       (TrapezoidalMF ''high'' 60 70 100 100)"

definition eligibility_var :: FuzzyVariable where
  "eligibility_var =
     add_membership_function
       (add_membership_function
          (add_membership_function (FuzzyVariable_init ''eligibility'' 0 100)
             (TrapezoidalMF ''not_eligible'' 0 0 30 40))
          (TriangularMF ''under_consideration'' 30 50 70))
       (TrapezoidalMF ''eligible'' 60 70 100 100)"

text \<open>
  The expression \<^verbatim>\<open>v.membership_functions[t].evaluate(inputs[k])\<close> of the three
  antecedent closures: the term is looked up first, then the input, then the
  membership function is evaluated.
\<close>

definition term_degree :: "FuzzyVariable \<Rightarrow> string \<Rightarrow> inputs \<Rightarrow> string \<Rightarrow> py_error + real" where
  "term_degree v t inp k =
     (case map_of (membership_functions v) t of
        None \<Rightarrow> Inl KeyError
      | Some mf \<Rightarrow>
          (case inp k of
             None \<Rightarrow> Inl KeyError
           | Some x \<Rightarrow> mf_evaluate mf x))"

definition combine3 ::
  "(real \<Rightarrow> real \<Rightarrow> real) \<Rightarrow> py_error + real \<Rightarrow> py_error + real \<Rightarrow> py_error + real
     \<Rightarrow> py_error + real" where
  "combine3 f p q r =
     (case p of
        Inl e \<Rightarrow> Inl e
      | Inr x \<Rightarrow>
          (case q of
             Inl e \<Rightarrow> Inl e
           | Inr y \<Rightarrow>
               (case r of
                  Inl e \<Rightarrow> Inl e
                | Inr z \<Rightarrow> Inr (f x (f y z)))))"

definition rule1_antecedent :: "inputs \<Rightarrow> py_error + real" where
  "rule1_antecedent inp =
     combine3 min
       (term_degree income_var ''high'' inp ''income'')
       (term_degree dependents_var ''few'' inp ''dependents'')
       (term_degree credit_history_var ''good'' inp ''credit_history'')"

definition rule3_antecedent :: "inputs \<Rightarrow> py_error + real" where
  "rule3_antecedent inp =
     combine3 min
       (term_degree income_var ''medium'' inp ''income'')
       (term_degree dependents_var ''average'' inp ''dependents'')
       (term_degree credit_history_var ''average'' inp ''credit_history'')"

definition rule5_antecedent :: "inputs \<Rightarrow> py_error + real" where
  "rule5_antecedent inp =
     combine3 max
       (term_degree income_var ''low'' inp ''income'')
       (term_degree dependents_var ''many'' inp ''dependents'')
       (term_degree credit_history_var ''poor'' inp ''credit_history'')"

definition FuzzyRule_init ::
  "(inputs \<Rightarrow> py_error + real) \<Rightarrow> string \<Rightarrow> string \<Rightarrow> FuzzyRule" where
  "FuzzyRule_init f cv ct = \<lparr>antecedent_func = f, consequent_var = cv, consequent_term = ct\<rparr>"

definition credit_rules :: "FuzzyRule list" where
  "credit_rules =
     [FuzzyRule_init rule1_antecedent ''eligibility'' ''eligible'',
      FuzzyRule_init rule1_antecedent ''risk'' ''low'',
      FuzzyRule_init rule3_antecedent ''eligibility'' ''under_consideration'',
      FuzzyRule_init rule3_antecedent ''risk'' ''medium'',
      FuzzyRule_init rule5_antecedent ''eligibility'' ''not_eligible'',
      FuzzyRule_init rule5_antecedent ''risk'' ''high'']"

definition credit_variables :: TsukamotoFIS where
  "credit_variables =
     add_variable
       (add_variable
          (add_variable
             (add_variable
                (add_variable TsukamotoFIS_init income_var False)
                dependents_var False)
             credit_history_var False)
          risk_var True)
       eligibility_var True"

definition create_credit_risk_fis :: TsukamotoFIS where
  "create_credit_risk_fis = foldl add_rule credit_variables credit_rules"

record credit_result =
  risk :: real
  eligibility :: real

definition evaluate_credit_risk :: "real \<Rightarrow> real \<Rightarrow> real \<Rightarrow> py_error + credit_result" where
  "evaluate_credit_risk income dependents credit_history_rating =
     (case evaluate create_credit_risk_fis
             [''income'' \<mapsto> income, ''dependents'' \<mapsto> dependents,
              ''credit_history'' \<mapsto> credit_history_rating] of
        Inl e \<Rightarrow> Inl e
      | Inr result \<Rightarrow>
          (case result ''risk'' of
             None \<Rightarrow> Inl KeyError
           | Some r \<Rightarrow>
               (case result ''eligibility'' of
                  None \<Rightarrow> Inl KeyError
                | Some e \<Rightarrow> Inr \<lparr>risk = r, eligibility = e\<rparr>)))"

subsection \<open>Membership curves for plotting\<close>

text \<open>
  \<^verbatim>\<open>numpy.linspace(start, stop, num)\<close> belongs to the numpy library, not to this
  program; it is modelled from its documented behaviour with \<^verbatim>\<open>endpoint=True\<close>: a
  negative \<^verbatim>\<open>num\<close> raises \<^verbatim>\<open>ValueError\<close>, otherwise sample \<open>i\<close> is
  \<open>i * step + start\<close> with \<open>step = (stop - start) / (num - 1)\<close>, and the last sample is
  overwritten with \<open>stop\<close> when \<open>num > 1\<close>. With \<open>num = 1\<close> the only sample is
  \<open>start\<close>.
\<close>

definition linspace :: "real \<Rightarrow> real \<Rightarrow> int \<Rightarrow> py_error + real list" where
  "linspace start stop num =
     (if num < 0 then Inl NegativeSamples
      else
        (let n = nat num;
             delta = stop - start;
             y = (if n > 1 then map (\<lambda>i. real i * (delta / real (n - 1)) + start) [0..<n]
                  else map (\<lambda>i. real i * delta + start) [0..<n])
         in Inr (if n > 1 then y[n - 1 := stop] else y)))"

text \<open>
  A point is the dictionary \<^verbatim>\<open>{"x": x_val, term: degree, ...}\<close>; the inner loop adds
  one entry per membership function of the variable.
\<close>

type_synonym point = "(string \<times> real) list"

fun point_loop ::
  "(string \<times> MembershipFunction) list \<Rightarrow> real \<Rightarrow> point \<Rightarrow> py_error + point" where
  "point_loop [] x_val point = Inr point"
| "point_loop ((name, mf) # rest) x_val point =
     (case mf_evaluate mf x_val of
        Inl e \<Rightarrow> Inl e
      | Inr deg \<Rightarrow> point_loop rest x_val (AList.update name deg point))"

fun data_loop ::
  "(string \<times> MembershipFunction) list \<Rightarrow> real list \<Rightarrow> py_error + point list" where
  "data_loop mfs [] = Inr []"
| "data_loop mfs (x_val # rest) =
     (case point_loop mfs x_val [(''x'', x_val)] of
        Inl e \<Rightarrow> Inl e
      | Inr point \<Rightarrow>
          (case data_loop mfs rest of
             Inl e \<Rightarrow> Inl e
           | Inr data \<Rightarrow> Inr (point # data)))"

definition generate_membership_function_data :: "string \<Rightarrow> int \<Rightarrow> py_error + point list" where
  "generate_membership_function_data variable_name num_points =
     (let fis = create_credit_risk_fis
      in case map_of (variables fis) variable_name of
           None \<Rightarrow> Inl (UnknownVariable variable_name)
         | Some variable \<Rightarrow>
             (case linspace (fst (var_range variable)) (snd (var_range variable)) num_points of
                Inl e \<Rightarrow> Inl e
              | Inr x \<Rightarrow> data_loop (membership_functions variable) x))"

subsection \<open>Notions used to state the properties\<close>

text \<open>
  An assembled engine is one obtained from the empty engine by calls of
  \<^verbatim>\<open>add_variable\<close> and \<^verbatim>\<open>add_rule\<close>.
\<close>

inductive assembled :: "TsukamotoFIS \<Rightarrow> bool" where
  init: "assembled TsukamotoFIS_init"
| variable: "assembled fis \<Longrightarrow> assembled (add_variable fis v is_output)"
| rule: "assembled fis \<Longrightarrow> assembled (add_rule fis r)"

text \<open>
  The firing strengths of the rules that return; \<open>fires v\<close> selects the pairs that
  contribute to output variable \<open>v\<close>; \<open>consequent_mf\<close> is the membership function a rule
  names on \<open>v\<close>, if there is one, and \<open>crisp\<close> its inverse at the firing strength.
\<close>

definition firing_strengths :: "FuzzyRule list \<Rightarrow> inputs \<Rightarrow> (FuzzyRule \<times> real) list" where
  "firing_strengths rs inp = map (\<lambda>rule. (rule, projr (FuzzyRule_evaluate rule inp))) rs"

definition fires :: "string \<Rightarrow> FuzzyRule \<times> real \<Rightarrow> bool" where
  "fires v p = (consequent_var (fst p) = v \<and> snd p > 0)"

definition consequent_mf ::
  "(string \<times> FuzzyVariable) list \<Rightarrow> string \<Rightarrow> FuzzyRule \<Rightarrow> MembershipFunction option" where
  "consequent_mf vars v rule =
     (case map_of vars v of
        None \<Rightarrow> None
      | Some var \<Rightarrow> map_of (membership_functions var) (consequent_term rule))"

definition crisp :: "(string \<times> FuzzyVariable) list \<Rightarrow> string \<Rightarrow> FuzzyRule \<times> real \<Rightarrow> real" where
  "crisp vars v p = mf_inverse (the (consequent_mf vars v (fst p))) (snd p)"

definition midpoint :: "(string \<times> FuzzyVariable) list \<Rightarrow> string \<Rightarrow> real" where
  "midpoint vars v =
     (fst (var_range (the (map_of vars v))) + snd (var_range (the (map_of vars v)))) / 2"

text \<open>
  The value the specification gives for output variable \<open>v\<close>, written from its words:
  the weighted average over the set \<open>S\<close> of fired rules, or the midpoint of the range
  when \<open>S\<close> is empty.
\<close>

definition weighted_average ::
  "(string \<times> FuzzyVariable) list \<Rightarrow> (FuzzyRule \<times> real) list \<Rightarrow> string \<Rightarrow> real" where
  "weighted_average vars rr v =
     (let S = filter (fires v) rr
      in if S = [] then midpoint vars v
         else (\<Sum>p\<leftarrow>S. crisp vars v p * snd p) / (\<Sum>p\<leftarrow>S. snd p))"

definition output_ok ::
  "(string \<times> FuzzyVariable) list \<Rightarrow> (FuzzyRule \<times> real) list \<Rightarrow> string \<Rightarrow> bool" where
  "output_ok vars rr v =
     (map_of vars v \<noteq> None \<and>
      (\<forall>p\<in>set rr. fires v p \<longrightarrow> consequent_mf vars v (fst p) \<noteq> None))"

text \<open>
  The invariant the specification states for an engine: every rule names an output
  variable of the engine and a term of that variable.
\<close>

definition rule_wellformed :: "TsukamotoFIS \<Rightarrow> FuzzyRule \<Rightarrow> bool" where
  "rule_wellformed fis rule =
     (consequent_var rule \<in> set (output_variables fis) \<and>
      consequent_mf (variables fis) (consequent_var rule) rule \<noteq> None)"

definition x_of :: "point \<Rightarrow> real" where
  "x_of p = the (map_of p ''x'')"

text \<open>
  A rule that is not part of the rule base: it always fires with strength 1 and
  names a term, \<open>very_high\<close>, that the variable \<open>risk\<close> does not have.
\<close>

definition unknown_term_rule :: FuzzyRule where
  "unknown_term_rule = FuzzyRule_init (\<lambda>inp. Inr 1) ''risk'' ''very_high''"

section \<open>Properties\<close>

subsection \<open>Membership functions are total\<close>

lemma mf_evaluate_total:
  "\<exists>deg. mf_evaluate mf x = Inr deg \<and> 0 \<le> deg \<and> deg \<le> 1"
proof (cases mf)
  case (TriangularMF n a b c)
  show ?thesis unfolding TriangularMF
    by (simp add: py_div_def divide_le_eq_1)
next
  case (TrapezoidalMF n a b c d)
  show ?thesis unfolding TrapezoidalMF
    by (simp add: py_div_def divide_le_eq_1)
qed

subsection \<open>The loops of \<open>evaluate\<close> in closed form\<close>

lemma rule_results_loop_Inr_iff:
  "rule_results_loop rs inp = Inr rr \<longleftrightarrow>
     (\<forall>rule\<in>set rs. \<exists>fs. FuzzyRule_evaluate rule inp = Inr fs) \<and> rr = firing_strengths rs inp"
proof (induction rs arbitrary: rr)
  case Nil
  show ?case by (auto simp: firing_strengths_def)
next
  case (Cons r rs)
  show ?case
  proof (cases "FuzzyRule_evaluate r inp")
    case (Inl e)
    then show ?thesis by auto
  next
    case (Inr fs)
    note r = this
    show ?thesis
    proof (cases "rule_results_loop rs inp")
      case (Inl e)
      with Cons.IH [of "firing_strengths rs inp"] r show ?thesis by auto
    next
      case (Inr rr0)
      with Cons.IH [of rr0] r show ?thesis
        by (auto simp: firing_strengths_def)
    qed
  qed
qed

lemma weighted_loop_Inr_iff:
  "weighted_loop vars v rr (ws, w) = Inr acc \<longleftrightarrow>
     (\<forall>p\<in>set rr. fires v p \<longrightarrow> consequent_mf vars v (fst p) \<noteq> None) \<and>
     acc = (ws + (\<Sum>p\<leftarrow>filter (fires v) rr. crisp vars v p * snd p),
            w + (\<Sum>p\<leftarrow>filter (fires v) rr. snd p))"
proof (induction rr arbitrary: ws w)
  case Nil
  show ?case by auto
next
  case (Cons p rr)
  obtain rule fs where p: "p = (rule, fs)" by (cases p)
  show ?case
  proof (cases "fires v p")
    case False
    with Cons.IH [of ws w] p show ?thesis by (auto simp: fires_def)
  next
    case True
    note f = this
    show ?thesis
    proof (cases "consequent_mf vars v rule")
      case None
      with f p show ?thesis
        by (auto simp: fires_def consequent_mf_def split: option.splits)
    next
      case (Some mf)
      then obtain var where var: "map_of vars v = Some var"
        and mf: "map_of (membership_functions var) (consequent_term rule) = Some mf"
        by (auto simp: consequent_mf_def split: option.splits)
      have c: "crisp vars v p = mf_inverse mf fs"
        using Some p by (simp add: crisp_def)
      have "weighted_loop vars v (p # rr) (ws, w) =
              weighted_loop vars v rr (ws + mf_inverse mf fs * fs, w + fs)"
        using f p var mf by (simp add: fires_def Let_def)
      with Cons.IH [of "ws + mf_inverse mf fs * fs" "w + fs"] f p Some c
      show ?thesis by (auto simp: add.assoc)
    qed
  qed
qed

lemma sum_list_pos_nonempty:
  "xs \<noteq> [] \<Longrightarrow> \<forall>x\<in>set xs. 0 < (f x :: real) \<Longrightarrow> 0 < (\<Sum>x\<leftarrow>xs. f x)"
proof (induction xs)
  case Nil
  then show ?case by simp
next
  case (Cons a xs)
  have "0 \<le> (\<Sum>x\<leftarrow>xs. f x)"
    using Cons.prems(2) by (intro sum_list_nonneg) (auto intro: less_imp_le)
  moreover have "0 < f a" using Cons.prems(2) by simp
  ultimately show ?case by simp
qed

lemma weight_sum_pos_iff:
  "0 < (\<Sum>p\<leftarrow>filter (fires v) rr. snd p) \<longleftrightarrow> filter (fires v) rr \<noteq> []"
proof
  assume "0 < (\<Sum>p\<leftarrow>filter (fires v) rr. snd p)"
  then show "filter (fires v) rr \<noteq> []" by auto
next
  assume "filter (fires v) rr \<noteq> []"
  then show "0 < (\<Sum>p\<leftarrow>filter (fires v) rr. snd p)"
    by (rule sum_list_pos_nonempty) (simp add: fires_def)
qed

lemma outputs_loop_Inr_iff:
  "outputs_loop vars rr ovs result = Inr res \<longleftrightarrow>
     (\<forall>v\<in>set ovs. output_ok vars rr v) \<and>
     res = (\<lambda>v. if v \<in> set ovs then Some (weighted_average vars rr v) else result v)"
proof (induction ovs arbitrary: result)
  case Nil
  show ?case by auto
next
  case (Cons ov ovs)
  let ?S = "filter (fires ov) rr"
  show ?case
  proof (cases "weighted_loop vars ov rr (0, 0)")
    case (Inl e)
    then have "\<not> (\<forall>p\<in>set rr. fires ov p \<longrightarrow> consequent_mf vars ov (fst p) \<noteq> None)"
      using weighted_loop_Inr_iff [of vars ov rr 0 0] by auto
    with Inl show ?thesis by (auto simp: output_ok_def)
  next
    case (Inr acc)
    then have ok: "\<forall>p\<in>set rr. fires ov p \<longrightarrow> consequent_mf vars ov (fst p) \<noteq> None"
      and acc: "acc = ((\<Sum>p\<leftarrow>?S. crisp vars ov p * snd p), (\<Sum>p\<leftarrow>?S. snd p))"
      using weighted_loop_Inr_iff [of vars ov rr 0 0 acc] by auto
    show ?thesis
    proof (cases "?S = []")
      case True
      note empty = this
      show ?thesis
      proof (cases "map_of vars ov")
        case None
        with Inr acc empty show ?thesis by (auto simp: output_ok_def)
      next
        case (Some var)
        have step: "outputs_loop vars rr (ov # ovs) result =
                outputs_loop vars rr ovs (result(ov \<mapsto> weighted_average vars rr ov))"
          using Inr acc empty Some by (simp add: weighted_average_def midpoint_def)
        have okv: "output_ok vars rr ov" using ok Some by (simp add: output_ok_def)
        show ?thesis unfolding step Cons.IH using okv by (auto simp: fun_eq_iff)
      qed
    next
      case False
      then have pos: "0 < (\<Sum>p\<leftarrow>?S. snd p)" by (simp add: weight_sum_pos_iff)
      from False obtain p where "p \<in> set rr" "fires ov p"
        by (auto simp: filter_empty_conv)
      with ok have "consequent_mf vars ov (fst p) \<noteq> None" by auto
      then have dv: "map_of vars ov \<noteq> None"
        by (auto simp: consequent_mf_def split: option.splits)
      have step: "outputs_loop vars rr (ov # ovs) result =
              outputs_loop vars rr ovs (result(ov \<mapsto> weighted_average vars rr ov))"
        using Inr acc False pos by (simp add: weighted_average_def Let_def)
      have okv: "output_ok vars rr ov" using ok dv by (simp add: output_ok_def)
      show ?thesis unfolding step Cons.IH using okv by (auto simp: fun_eq_iff)
    qed
  qed
qed

lemma evaluate_Inr_iff:
  "evaluate fis inp = Inr res \<longleftrightarrow>
     (\<forall>rule\<in>set (rules fis). \<exists>fs. FuzzyRule_evaluate rule inp = Inr fs) \<and>
     (\<forall>v\<in>set (output_variables fis).
        output_ok (variables fis) (firing_strengths (rules fis) inp) v) \<and>
     res = (\<lambda>v. if v \<in> set (output_variables fis)
                 then Some (weighted_average (variables fis) (firing_strengths (rules fis) inp) v)
                 else None)"
proof (cases "rule_results_loop (rules fis) inp")
  case (Inl e)
  then have "\<not> (\<forall>rule\<in>set (rules fis). \<exists>fs. FuzzyRule_evaluate rule inp = Inr fs)"
    using rule_results_loop_Inr_iff [of "rules fis" inp "firing_strengths (rules fis) inp"]
    by auto
  with Inl show ?thesis by (auto simp: evaluate_def)
next
  case (Inr rr)
  then have all: "\<forall>rule\<in>set (rules fis). \<exists>fs. FuzzyRule_evaluate rule inp = Inr fs"
    and rr: "rr = firing_strengths (rules fis) inp"
    using rule_results_loop_Inr_iff [of "rules fis" inp rr] by auto
  have "evaluate fis inp = outputs_loop (variables fis) rr (output_variables fis) Map.empty"
    using Inr by (simp add: evaluate_def)
  then show ?thesis using all rr by (simp add: outputs_loop_Inr_iff)
qed

subsection \<open>The constants of the credit-risk rule base\<close>

lemma income_var_mfs:
  "membership_functions income_var =
     [(''low'', TrapezoidalMF ''low'' 0 0 2500000 3000000),
      (''medium'', TriangularMF ''medium'' 2500000 5000000 7000000),
      (''high'', TrapezoidalMF ''high'' 6500000 7000000 20000000 20000000)]"
  by (simp add: income_var_def add_membership_function_def FuzzyVariable_init_def)

lemma dependents_var_mfs:
  "membership_functions dependents_var =
     [(''few'', TrapezoidalMF ''few'' 0 0 1 2),
      (''average'', TriangularMF ''average'' 1 2 3),
      (''many'', TrapezoidalMF ''many'' 3 4 10 10)]"
  by (simp add: dependents_var_def add_membership_function_def FuzzyVariable_init_def)

lemma credit_history_var_mfs:
  "membership_functions credit_history_var =
     [(''poor'', TrapezoidalMF ''poor'' 0 0 3 4),
      (''average'', TriangularMF ''average'' 3 5 7),
      (''good'', TrapezoidalMF ''good'' 6 7 10 10)]"
  by (simp add: credit_history_var_def add_membership_function_def FuzzyVariable_init_def)

lemma risk_var_mfs:
  "membership_functions risk_var =
     [(''low'', TrapezoidalMF ''low'' 0 0 30 40),
      (''medium'', TriangularMF ''medium'' 30 50 70),
      (''high'', TrapezoidalMF ''high'' 60 70 100 100)]"
  by (simp add: risk_var_def add_membership_function_def FuzzyVariable_init_def)

lemma eligibility_var_mfs:
  "membership_functions eligibility_var =
     [(''not_eligible'', TrapezoidalMF ''not_eligible'' 0 0 30 40),
      (''under_consideration'', TriangularMF ''under_consideration'' 30 50 70),
      (''eligible'', TrapezoidalMF ''eligible'' 60 70 100 100)]"
  by (simp add: eligibility_var_def add_membership_function_def FuzzyVariable_init_def)

lemma var_names:
  "var_name income_var = ''income''" "var_name dependents_var = ''dependents''"
  "var_name credit_history_var = ''credit_history''" "var_name risk_var = ''risk''"
  "var_name eligibility_var = ''eligibility''"
  by (simp_all add: income_var_def dependents_var_def credit_history_var_def risk_var_def
      eligibility_var_def add_membership_function_def FuzzyVariable_init_def)

lemma var_ranges:
  "var_range income_var = (0, 20000000)" "var_range dependents_var = (0, 10)"
  "var_range credit_history_var = (0, 10)" "var_range risk_var = (0, 100)"
  "var_range eligibility_var = (0, 100)"
  by (simp_all add: income_var_def dependents_var_def credit_history_var_def risk_var_def
      eligibility_var_def add_membership_function_def FuzzyVariable_init_def)

lemma foldl_add_rule:
  "variables (foldl add_rule fis rs) = variables fis"
  "output_variables (foldl add_rule fis rs) = output_variables fis"
  "rules (foldl add_rule fis rs) = rules fis @ rs"
  by (induction rs arbitrary: fis) (simp_all add: add_rule_def)

lemma credit_variables_simps:
  "variables credit_variables =
     [(''income'', income_var), (''dependents'', dependents_var),
      (''credit_history'', credit_history_var), (''risk'', risk_var),
      (''eligibility'', eligibility_var)]"
  "output_variables credit_variables = [''eligibility'', ''risk'']"
  "rules credit_variables = []"
  by (simp_all add: credit_variables_def add_variable_def TsukamotoFIS_init_def var_names Let_def)

lemma fis_simps:
  "variables create_credit_risk_fis =
     [(''income'', income_var), (''dependents'', dependents_var),
      (''credit_history'', credit_history_var), (''risk'', risk_var),
      (''eligibility'', eligibility_var)]"
  "output_variables create_credit_risk_fis = [''eligibility'', ''risk'']"
  "rules create_credit_risk_fis = credit_rules"
  by (simp_all add: create_credit_risk_fis_def foldl_add_rule credit_variables_simps)

lemmas engine_defs =
  evaluate_credit_risk_def evaluate_def fis_simps credit_rules_def FuzzyRule_init_def
  FuzzyRule_evaluate_def rule1_antecedent_def rule3_antecedent_def rule5_antecedent_def
  combine3_def term_degree_def income_var_mfs dependents_var_mfs credit_history_var_mfs
  risk_var_mfs eligibility_var_mfs var_ranges py_div_def

subsection \<open>Claims about the membership functions\<close>

text \<open>
  Claim C2. The approximate inverse of a triangular membership function with
  \<open>a \<le> b \<le> c\<close> is \<open>b\<close> at degree 0, the average of the rising-edge point
  \<open>a + y (b - a)\<close> and the falling-edge point \<open>c - y (c - b)\<close> for a degree
  \<open>0 < y \<le> 1\<close>, and \<open>b\<close> for a degree above 1. The inverse of a trapezoidal membership
  function with \<open>a \<le> b \<le> c \<le> d\<close> is \<open>(b + c) / 2\<close> at degree 0, at degree 1 and above
  1, and the average of \<open>a + y (b - a)\<close> and \<open>d - y (d - c)\<close> for \<open>0 < y < 1\<close>.
\<close>

theorem inverse_cases:
  "(a \<le> b \<and> b \<le> c \<longrightarrow>
      mf_inverse (TriangularMF n a b c) 0 = b \<and>
      (0 < y \<and> y \<le> 1 \<longrightarrow>
         mf_inverse (TriangularMF n a b c) y = ((a + y * (b - a)) + (c - y * (c - b))) / 2) \<and>
      (1 < z \<longrightarrow> mf_inverse (TriangularMF n a b c) z = b)) \<and>
   (a \<le> b \<and> b \<le> c \<and> c \<le> d \<longrightarrow>
      mf_inverse (TrapezoidalMF n a b c d) 0 = (b + c) / 2 \<and>
      mf_inverse (TrapezoidalMF n a b c d) 1 = (b + c) / 2 \<and>
      (1 < z \<longrightarrow> mf_inverse (TrapezoidalMF n a b c d) z = (b + c) / 2) \<and>
      (0 < y \<and> y < 1 \<longrightarrow>
         mf_inverse (TrapezoidalMF n a b c d) y = ((a + y * (b - a)) + (d - y * (d - c))) / 2))"
  by (auto simp: Let_def)

theorem inverse_cases_witness:
  "(30::real) \<le> 50 \<and> (50::real) \<le> 70 \<and> (70::real) \<le> 100 \<and>
   (0::real) < 1 / 2 \<and> (1 / 2 :: real) \<le> 1 \<and> (1 / 2 :: real) < 1 \<and> (1::real) < 2 \<and>
   mf_inverse (TriangularMF ''medium'' 30 50 70) 0 = 50 \<and>
   mf_inverse (TriangularMF ''medium'' 30 50 70) (1 / 2) = 50 \<and>
   mf_inverse (TriangularMF ''medium'' 30 50 70) 2 = 50 \<and>
   mf_inverse (TrapezoidalMF ''medium'' 30 50 70 100) 0 = 60 \<and>
   mf_inverse (TrapezoidalMF ''medium'' 30 50 70 100) 1 = 60 \<and>
   mf_inverse (TrapezoidalMF ''medium'' 30 50 70 100) 2 = 60 \<and>
   mf_inverse (TrapezoidalMF ''medium'' 30 50 70 100) (1 / 2) = 125 / 2"
  using inverse_cases [of 30 50 70 "''medium''" "1 / 2" 2 100] by simp

text \<open>
  Claim C3, as stated: a triangular function returns 1 at \<open>x = b\<close> and a trapezoidal
  one returns 1 for \<open>b \<le> x \<le> c\<close>, \<open>x < d\<close>, for all \<open>a \<le> b \<le> c (\<le> d)\<close>. The guard
  \<^verbatim>\<open>x <= a or x >= d\<close> is tested first, so that the trapezoid \<open>few = (0, 0, 1, 2)\<close> of
  the rule base returns 0 at \<open>x = 0\<close>, although \<open>b \<le> 0 \<le> c\<close> and \<open>0 < d\<close>.
\<close>

theorem evaluate_cases_counterexample:
  "(0::real) \<le> 0 \<and> (0::real) \<le> 1 \<and> (1::real) \<le> 2 \<and> (0::real) < 2 \<and>
   mf_evaluate (TrapezoidalMF ''few'' 0 0 1 2) 0 = Inr 0 \<and>
   mf_evaluate (TrapezoidalMF ''few'' 0 0 1 2) 0 \<noteq> Inr 1"
  by simp

text \<open>
  Claim C3, amended: the four cases of the claim hold away from a degenerate edge.
  For \<open>a \<le> b \<le> c\<close> the triangular function returns 0 for \<open>x < a\<close>, for \<open>x > c\<close>, at
  \<open>x = a\<close> when \<open>a < b\<close> and at \<open>x = c\<close> when \<open>b < c\<close>; 1 at \<open>x = b\<close> when
  \<open>a < b < c\<close>; \<open>(x - a) / (b - a)\<close> for \<open>a < x < b\<close>; \<open>(c - x) / (c - b)\<close> for
  \<open>b < x < c\<close>. For \<open>a \<le> b \<le> c \<le> d\<close> the trapezoidal function returns 0 for
  \<open>x < a\<close>, for \<open>x > d\<close>, at \<open>x = a\<close> when \<open>a < b\<close> and at \<open>x = d\<close> when \<open>c < d\<close>; 1
  for \<open>b \<le> x \<le> c\<close> with \<open>a < x < d\<close>; \<open>(x - a) / (b - a)\<close> for \<open>a < x < b\<close>;
  \<open>(d - x) / (d - c)\<close> for \<open>c < x < d\<close>. Nothing is said about an endpoint where two
  parameters coincide.
\<close>

theorem evaluate_cases:
  "(a \<le> b \<and> b \<le> c \<longrightarrow>
      (x0 < a \<or> c < x0 \<or> (x0 = a \<and> a < b) \<or> (x0 = c \<and> b < c)
         \<longrightarrow> mf_evaluate (TriangularMF n a b c) x0 = Inr 0) \<and>
      (a < b \<and> b < c \<longrightarrow> mf_evaluate (TriangularMF n a b c) b = Inr 1) \<and>
      (a < x1 \<and> x1 < b \<longrightarrow> mf_evaluate (TriangularMF n a b c) x1 = Inr ((x1 - a) / (b - a))) \<and>
      (b < x2 \<and> x2 < c \<longrightarrow> mf_evaluate (TriangularMF n a b c) x2 = Inr ((c - x2) / (c - b)))) \<and>
   (a \<le> b \<and> b \<le> c' \<and> c' \<le> d \<longrightarrow>
      (x0 < a \<or> d < x0 \<or> (x0 = a \<and> a < b) \<or> (x0 = d \<and> c' < d)
         \<longrightarrow> mf_evaluate (TrapezoidalMF n a b c' d) x0 = Inr 0) \<and>
      (b \<le> xp \<and> xp \<le> c' \<and> a < xp \<and> xp < d
         \<longrightarrow> mf_evaluate (TrapezoidalMF n a b c' d) xp = Inr 1) \<and>
      (a < x1 \<and> x1 < b
         \<longrightarrow> mf_evaluate (TrapezoidalMF n a b c' d) x1 = Inr ((x1 - a) / (b - a))) \<and>
      (c' < x3 \<and> x3 < d
         \<longrightarrow> mf_evaluate (TrapezoidalMF n a b c' d) x3 = Inr ((d - x3) / (d - c'))))"
  by (auto simp: py_div_def)

theorem evaluate_cases_witness:
  "(30::real) \<le> 50 \<and> (50::real) \<le> 70 \<and> (50::real) \<le> 60 \<and> (60::real) \<le> 70 \<and>
   (20::real) < 30 \<and> (30::real) < 40 \<and> (40::real) < 50 \<and> (50::real) < 55 \<and>
   (55::real) < 70 \<and> (60::real) < 65 \<and> (65::real) < 70 \<and>
   mf_evaluate (TriangularMF ''medium'' 30 50 70) 20 = Inr 0 \<and>
   mf_evaluate (TriangularMF ''medium'' 30 50 70) 50 = Inr 1 \<and>
   mf_evaluate (TriangularMF ''medium'' 30 50 70) 40 = Inr (1 / 2) \<and>
   mf_evaluate (TriangularMF ''medium'' 30 50 70) 55 = Inr (3 / 4) \<and>
   mf_evaluate (TrapezoidalMF ''medium'' 30 50 60 70) 20 = Inr 0 \<and>
   mf_evaluate (TrapezoidalMF ''medium'' 30 50 60 70) 55 = Inr 1 \<and>
   mf_evaluate (TrapezoidalMF ''medium'' 30 50 60 70) 40 = Inr (1 / 2) \<and>
   mf_evaluate (TrapezoidalMF ''medium'' 30 50 60 70) 65 = Inr (1 / 2)"
  using evaluate_cases [of 30 50 70 20 "''medium''" 40 55 60 70 55 65] by simp

text \<open>
  Claim C6. The claim asks that every trapezoid of the rule base is 1 on the whole
  plateau \<open>b \<le> x \<le> c\<close>, also at \<open>x = c\<close> when \<open>c = d\<close>. The term \<open>high\<close> of
  \<open>income\<close> is the trapezoid \<open>(6500000, 7000000, 20000000, 20000000)\<close>, and the code
  returns 0 for it at \<open>x = 20000000\<close>: the guard \<^verbatim>\<open>x >= self.d\<close> returns before the
  plateau test \<^verbatim>\<open>self.b <= x <= self.c\<close> is reached.
\<close>

theorem plateau_right_endpoint_is_zero:
  "map_of (membership_functions income_var) ''high'' =
     Some (TrapezoidalMF ''high'' 6500000 7000000 20000000 20000000) \<and>
   (7000000::real) \<le> 20000000 \<and>
   mf_evaluate (TrapezoidalMF ''high'' 6500000 7000000 20000000 20000000) 20000000 = Inr 0"
  by (simp add: income_var_mfs)

text \<open>
  Claim C10. For every real \<open>x\<close>, evaluating any membership function of the five
  variables of the rule base returns a degree in \<open>[0, 1]\<close>; no ramp division raises
  \<^verbatim>\<open>ZeroDivisionError\<close>, also on the trapezoids with \<open>a = b\<close> or \<open>c = d\<close>.
\<close>

theorem rule_base_evaluate_safe:
  "\<forall>(vn, var)\<in>set (variables create_credit_risk_fis).
     \<forall>(tn, mf)\<in>set (membership_functions var).
       \<exists>deg. mf_evaluate mf x = Inr deg \<and> 0 \<le> deg \<and> deg \<le> 1"
  using mf_evaluate_total by blast

theorem rule_base_evaluate_safe_witness:
  "(''income'', income_var) \<in> set (variables create_credit_risk_fis) \<and>
   (''high'', TrapezoidalMF ''high'' 6500000 7000000 20000000 20000000)
      \<in> set (membership_functions income_var) \<and>
   (\<exists>deg. mf_evaluate (TrapezoidalMF ''high'' 6500000 7000000 20000000 20000000) 20000000
            = Inr deg \<and> 0 \<le> deg \<and> deg \<le> 1)"
proof -
  have v: "(''income'', income_var) \<in> set (variables create_credit_risk_fis)"
    by (simp add: fis_simps)
  have t: "(''high'', TrapezoidalMF ''high'' 6500000 7000000 20000000 20000000)
             \<in> set (membership_functions income_var)"
    by (simp add: income_var_mfs)
  from rule_base_evaluate_safe [of 20000000] v t show ?thesis by blast
qed

subsection \<open>Claims about the credit-risk scores\<close>

text \<open>
  Claim C4. On the fixed rule base, income 8,000,000 with 1 dependent and credit
  rating 8 gives a risk score below 40 and an eligibility score of at least 70;
  income 5,000,000 with 2 dependents and rating 5 gives a risk score in \<open>[40, 70]\<close>
  and an eligibility score in \<open>[40, 70)\<close>; income 2,000,000 with 5 dependents and
  rating 2 gives a risk score of at least 70 and an eligibility score below 40.
\<close>

theorem scenarios:
  "(\<exists>res. evaluate_credit_risk 8000000 1 8 = Inr res \<and> risk res < 40 \<and> 70 \<le> eligibility res) \<and>
   (\<exists>res. evaluate_credit_risk 5000000 2 5 = Inr res \<and> 40 \<le> risk res \<and> risk res \<le> 70 \<and>
          40 \<le> eligibility res \<and> eligibility res < 70) \<and>
   (\<exists>res. evaluate_credit_risk 2000000 5 2 = Inr res \<and> 70 \<le> risk res \<and> eligibility res < 40)"
proof -
  have "evaluate_credit_risk 8000000 1 8 = Inr \<lparr>risk = 15, eligibility = 85\<rparr>"
    by (simp add: engine_defs)
  moreover have "evaluate_credit_risk 5000000 2 5 = Inr \<lparr>risk = 50, eligibility = 50\<rparr>"
    by (simp add: engine_defs)
  moreover have "evaluate_credit_risk 2000000 5 2 = Inr \<lparr>risk = 85, eligibility = 15\<rparr>"
    by (simp add: engine_defs)
  ultimately show ?thesis by simp
qed

subsection \<open>Claims about the inference engine\<close>

lemma assembled_outputs_declared:
  "assembled fis \<Longrightarrow> v \<in> set (output_variables fis) \<Longrightarrow> map_of (variables fis) v \<noteq> None"
proof (induction arbitrary: v rule: assembled.induct)
  case init
  then show ?case by (simp add: TsukamotoFIS_init_def)
next
  case (variable fis var is_output)
  then show ?case
    by (auto simp: add_variable_def Let_def update_conv' split: if_splits)
next
  case (rule fis r)
  then show ?case by (simp add: add_rule_def)
qed

lemma assembled_credit_fis: "assembled create_credit_risk_fis"
  unfolding create_credit_risk_fis_def credit_variables_def credit_rules_def foldl.simps
  by (intro assembled.intros)

text \<open>
  Claim C1. For an assembled engine, an output variable \<open>v\<close> and any inputs,
  \<open>evaluate\<close> gives \<open>result[v]\<close> as the sum of \<open>crisp * firing_strength\<close> divided by the
  sum of \<open>firing_strength\<close> over the rules with consequent variable \<open>v\<close> and positive
  firing strength, \<open>crisp\<close> being the inverse of the consequent term's membership
  function at the firing strength, and as the midpoint of the range of \<open>v\<close> when there
  is no such rule (\<open>weighted_average\<close>). The first conjunct says that \<open>evaluate\<close> returns
  whenever every antecedent returns and every rule names an output variable and one of
  its terms; the second that whatever it returns is that value.
\<close>

theorem evaluate_weighted_average:
  assumes "assembled fis" and "v \<in> set (output_variables fis)"
  shows "((\<forall>rule\<in>set (rules fis).
             (\<exists>fs. FuzzyRule_evaluate rule inp = Inr fs) \<and> rule_wellformed fis rule)
            \<longrightarrow> (\<exists>result. evaluate fis inp = Inr result)) \<and>
         (\<forall>result. evaluate fis inp = Inr result \<longrightarrow>
            result v = Some (weighted_average (variables fis) (firing_strengths (rules fis) inp) v))"
proof (intro conjI impI allI)
  assume ok: "\<forall>rule\<in>set (rules fis).
             (\<exists>fs. FuzzyRule_evaluate rule inp = Inr fs) \<and> rule_wellformed fis rule"
  have "output_ok (variables fis) (firing_strengths (rules fis) inp) u"
    if u: "u \<in> set (output_variables fis)" for u
  proof -
    have "map_of (variables fis) u \<noteq> None"
      using assms(1) u by (rule assembled_outputs_declared)
    moreover have "consequent_mf (variables fis) u (fst p) \<noteq> None"
      if "p \<in> set (firing_strengths (rules fis) inp)" "fires u p" for p
    proof -
      from that(1) have "fst p \<in> set (rules fis)" by (auto simp: firing_strengths_def)
      with ok have "rule_wellformed fis (fst p)" by blast
      moreover from that(2) have "consequent_var (fst p) = u" by (simp add: fires_def)
      ultimately show ?thesis by (simp add: rule_wellformed_def)
    qed
    ultimately show ?thesis by (simp add: output_ok_def)
  qed
  with ok show "\<exists>result. evaluate fis inp = Inr result"
    by (simp add: evaluate_Inr_iff)
next
  fix result
  assume "evaluate fis inp = Inr result"
  then have "result = (\<lambda>v. if v \<in> set (output_variables fis)
                 then Some (weighted_average (variables fis) (firing_strengths (rules fis) inp) v)
                 else None)"
    by (simp add: evaluate_Inr_iff)
  with assms(2)
  show "result v = Some (weighted_average (variables fis) (firing_strengths (rules fis) inp) v)"
    by simp
qed

theorem evaluate_weighted_average_witness:
  "assembled create_credit_risk_fis \<and>
   ''risk'' \<in> set (output_variables create_credit_risk_fis) \<and>
   (\<exists>result. evaluate create_credit_risk_fis
               [''income'' \<mapsto> 8000000, ''dependents'' \<mapsto> 1, ''credit_history'' \<mapsto> 8] = Inr result \<and>
      result ''risk'' = Some 15)"
proof -
  let ?inp = "[''income'' \<mapsto> 8000000, ''dependents'' \<mapsto> 1, ''credit_history'' \<mapsto> (8::real)]"
  have a: "assembled create_credit_risk_fis" by (rule assembled_credit_fis)
  have o: "''risk'' \<in> set (output_variables create_credit_risk_fis)"
    by (simp add: fis_simps)
  have r: "\<forall>rule\<in>set (rules create_credit_risk_fis).
      (\<exists>fs. FuzzyRule_evaluate rule ?inp = Inr fs) \<and>
      rule_wellformed create_credit_risk_fis rule"
    by (simp add: engine_defs rule_wellformed_def consequent_mf_def)
  have w: "weighted_average (variables create_credit_risk_fis)
             (firing_strengths (rules create_credit_risk_fis) ?inp) ''risk'' = 15"
    by (simp add: engine_defs weighted_average_def firing_strengths_def fires_def crisp_def
        consequent_mf_def)
  from evaluate_weighted_average [OF a o, of ?inp] r w
  have "\<exists>result. evaluate create_credit_risk_fis ?inp = Inr result \<and> result ''risk'' = Some 15"
    by auto
  with a o show ?thesis by (intro conjI)
qed

subsection \<open>The scores lie in the declared range\<close>

lemma weighted_sum_bounds:
  fixes w c :: "'a \<Rightarrow> real"
  assumes "\<forall>p\<in>set S. 0 < w p \<and> lo \<le> c p \<and> c p \<le> hi"
  shows "lo * (\<Sum>p\<leftarrow>S. w p) \<le> (\<Sum>p\<leftarrow>S. c p * w p) \<and> (\<Sum>p\<leftarrow>S. c p * w p) \<le> hi * (\<Sum>p\<leftarrow>S. w p)"
  using assms
proof (induction S)
  case Nil
  then show ?case by simp
next
  case (Cons p S)
  then have ih: "lo * (\<Sum>p\<leftarrow>S. w p) \<le> (\<Sum>p\<leftarrow>S. c p * w p)"
    "(\<Sum>p\<leftarrow>S. c p * w p) \<le> hi * (\<Sum>p\<leftarrow>S. w p)"
    by simp_all
  from Cons.prems have p: "0 < w p" "lo \<le> c p" "c p \<le> hi" by simp_all
  have "lo * w p \<le> c p * w p" using p by (simp add: mult_right_mono)
  moreover have "c p * w p \<le> hi * w p" using p by (simp add: mult_right_mono)
  ultimately show ?case using ih by (simp add: distrib_left)
qed

lemma weighted_average_bounds:
  assumes c: "\<forall>p\<in>set rr. fires v p \<longrightarrow> lo \<le> crisp vars v p \<and> crisp vars v p \<le> hi"
    and m: "lo \<le> midpoint vars v \<and> midpoint vars v \<le> hi"
  shows "lo \<le> weighted_average vars rr v \<and> weighted_average vars rr v \<le> hi"
proof (cases "filter (fires v) rr = []")
  case True
  with m show ?thesis by (simp add: weighted_average_def)
next
  case False
  let ?S = "filter (fires v) rr"
  have pos: "0 < (\<Sum>p\<leftarrow>?S. snd p)" using False by (simp add: weight_sum_pos_iff)
  have "\<forall>p\<in>set ?S. 0 < snd p \<and> lo \<le> crisp vars v p \<and> crisp vars v p \<le> hi"
    using c by (simp add: fires_def)
  then have "lo * (\<Sum>p\<leftarrow>?S. snd p) \<le> (\<Sum>p\<leftarrow>?S. crisp vars v p * snd p) \<and>
     (\<Sum>p\<leftarrow>?S. crisp vars v p * snd p) \<le> hi * (\<Sum>p\<leftarrow>?S. snd p)"
    by (rule weighted_sum_bounds)
  with pos False show ?thesis
    by (simp add: weighted_average_def Let_def pos_le_divide_eq pos_divide_le_eq)
qed

lemma term_degree_total:
  "inp k = Some x \<Longrightarrow> map_of (membership_functions var) t = Some mf
     \<Longrightarrow> \<exists>deg. term_degree var t inp k = Inr deg"
  using mf_evaluate_total [of mf x] by (auto simp: term_degree_def)

lemma combine3_total:
  "\<exists>x. p = Inr x \<Longrightarrow> \<exists>y. q = Inr y \<Longrightarrow> \<exists>z. r = Inr z \<Longrightarrow> \<exists>u. combine3 f p q r = Inr u"
  by (auto simp: combine3_def)

lemma antecedents_total:
  assumes "inp ''income'' = Some i" "inp ''dependents'' = Some d" "inp ''credit_history'' = Some h"
  shows "\<exists>fs. rule1_antecedent inp = Inr fs" "\<exists>fs. rule3_antecedent inp = Inr fs"
    "\<exists>fs. rule5_antecedent inp = Inr fs"
proof -
  note td = term_degree_total [of inp "''income''" i, OF assms(1)]
    term_degree_total [of inp "''dependents''" d, OF assms(2)]
    term_degree_total [of inp "''credit_history''" h, OF assms(3)]
  show "\<exists>fs. rule1_antecedent inp = Inr fs"
    unfolding rule1_antecedent_def
    by (rule combine3_total; rule td; simp add: income_var_mfs dependents_var_mfs credit_history_var_mfs)
  show "\<exists>fs. rule3_antecedent inp = Inr fs"
    unfolding rule3_antecedent_def
    by (rule combine3_total; rule td; simp add: income_var_mfs dependents_var_mfs credit_history_var_mfs)
  show "\<exists>fs. rule5_antecedent inp = Inr fs"
    unfolding rule5_antecedent_def
    by (rule combine3_total; rule td; simp add: income_var_mfs dependents_var_mfs credit_history_var_mfs)
qed

lemma output_inverse_bounds:
  assumes "0 < y"
  shows "0 \<le> mf_inverse (TrapezoidalMF n 0 0 30 40) y \<and> mf_inverse (TrapezoidalMF n 0 0 30 40) y \<le> 100"
    "0 \<le> mf_inverse (TriangularMF n 30 50 70) y \<and> mf_inverse (TriangularMF n 30 50 70) y \<le> 100"
    "0 \<le> mf_inverse (TrapezoidalMF n 60 70 100 100) y \<and> mf_inverse (TrapezoidalMF n 60 70 100 100) y \<le> 100"
  using assms by (auto simp: Let_def)


lemma credit_crisp_bounds:
  assumes "p \<in> set (firing_strengths credit_rules inp)" and "fires v p"
    and "v = ''risk'' \<or> v = ''eligibility''"
  shows "0 \<le> crisp (variables create_credit_risk_fis) v p \<and>
         crisp (variables create_credit_risk_fis) v p \<le> 100"
proof -
  from assms(2) have pos: "0 < snd p" and cv: "consequent_var (fst p) = v"
    by (simp_all add: fires_def)
  from assms(1) have "fst p \<in> set credit_rules" by (auto simp: firing_strengths_def)
  with cv assms(3)
  have "consequent_mf (variables create_credit_risk_fis) v (fst p) \<in>
          {Some (TrapezoidalMF ''low'' 0 0 30 40), Some (TriangularMF ''medium'' 30 50 70),
           Some (TrapezoidalMF ''high'' 60 70 100 100),
           Some (TrapezoidalMF ''not_eligible'' 0 0 30 40),
           Some (TriangularMF ''under_consideration'' 30 50 70),
           Some (TrapezoidalMF ''eligible'' 60 70 100 100)}"
    by (auto simp: credit_rules_def FuzzyRule_init_def consequent_mf_def fis_simps
        risk_var_mfs eligibility_var_mfs)
  then show ?thesis
    unfolding crisp_def using output_inverse_bounds [OF pos] by auto
qed

lemma credit_output_ok:
  assumes "v = ''risk'' \<or> v = ''eligibility''"
  shows "output_ok (variables create_credit_risk_fis) (firing_strengths credit_rules inp) v"
proof -
  have "consequent_mf (variables create_credit_risk_fis) v (fst p) \<noteq> None"
    if "p \<in> set (firing_strengths credit_rules inp)" "fires v p" for p
  proof -
    from that(1) have "fst p \<in> set credit_rules" by (auto simp: firing_strengths_def)
    moreover from that(2) have "consequent_var (fst p) = v" by (simp add: fires_def)
    ultimately show ?thesis using assms
      by (auto simp: credit_rules_def FuzzyRule_init_def consequent_mf_def fis_simps
          risk_var_mfs eligibility_var_mfs)
  qed
  moreover have "map_of (variables create_credit_risk_fis) v \<noteq> None"
    using assms by (auto simp: fis_simps)
  ultimately show ?thesis by (simp add: output_ok_def)
qed

lemma evaluate_credit_fis_closed:
  assumes "inp ''income'' = Some i" "inp ''dependents'' = Some d" "inp ''credit_history'' = Some h"
  shows "evaluate create_credit_risk_fis inp =
           Inr (\<lambda>v. if v \<in> set [''eligibility'', ''risk'']
                    then Some (weighted_average (variables create_credit_risk_fis)
                                 (firing_strengths credit_rules inp) v)
                    else None)"
proof -
  have "\<forall>rule\<in>set (rules create_credit_risk_fis). \<exists>fs. FuzzyRule_evaluate rule inp = Inr fs"
    using antecedents_total [OF assms]
    by (simp add: fis_simps credit_rules_def FuzzyRule_init_def FuzzyRule_evaluate_def)
  moreover have "\<forall>v\<in>set (output_variables create_credit_risk_fis).
     output_ok (variables create_credit_risk_fis)
       (firing_strengths (rules create_credit_risk_fis) inp) v"
    using credit_output_ok [of _ inp] by (simp add: fis_simps)
  ultimately show ?thesis
    by (simp add: evaluate_Inr_iff fis_simps cong: if_cong)
qed

text \<open>
  Claim C5. For every real income, every integer number of dependents \<open>\<ge> 0\<close> and every
  real credit-history rating in \<open>[0, 10]\<close>, \<open>evaluate_credit_risk\<close> returns a record whose
  risk and eligibility both lie in \<open>[0, 100]\<close>.
\<close>

theorem evaluate_credit_risk_bounds:
  assumes "0 \<le> dependents" and "0 \<le> credit_history_rating" and "credit_history_rating \<le> 10"
  shows "\<exists>res. evaluate_credit_risk income (of_int dependents) credit_history_rating = Inr res \<and>
           0 \<le> risk res \<and> risk res \<le> 100 \<and> 0 \<le> eligibility res \<and> eligibility res \<le> 100"
proof -
  let ?inp = "[''income'' \<mapsto> income, ''dependents'' \<mapsto> of_int dependents,
               ''credit_history'' \<mapsto> credit_history_rating]"
  let ?wa = "weighted_average (variables create_credit_risk_fis) (firing_strengths credit_rules ?inp)"
  have ev: "evaluate create_credit_risk_fis ?inp =
           Inr (\<lambda>v. if v \<in> set [''eligibility'', ''risk''] then Some (?wa v) else None)"
    by (rule evaluate_credit_fis_closed) simp_all
  have res: "evaluate_credit_risk income (of_int dependents) credit_history_rating =
          Inr \<lparr>risk = ?wa ''risk'', eligibility = ?wa ''eligibility''\<rparr>"
    unfolding evaluate_credit_risk_def ev by simp
  have mid: "midpoint (variables create_credit_risk_fis) ''risk'' = 50"
    "midpoint (variables create_credit_risk_fis) ''eligibility'' = 50"
    by (simp_all add: midpoint_def fis_simps var_ranges)
  have "0 \<le> ?wa ''risk'' \<and> ?wa ''risk'' \<le> 100"
    by (rule weighted_average_bounds) (simp_all add: credit_crisp_bounds mid)
  moreover have "0 \<le> ?wa ''eligibility'' \<and> ?wa ''eligibility'' \<le> 100"
    by (rule weighted_average_bounds) (simp_all add: credit_crisp_bounds mid)
  ultimately show ?thesis unfolding res by simp
qed

theorem evaluate_credit_risk_bounds_witness:
  "(0::int) \<le> 0 \<and> (0::real) \<le> 10 \<and> (10::real) \<le> 10 \<and>
   (\<exists>res. evaluate_credit_risk 20000000 (of_int 0) 10 = Inr res \<and>
           0 \<le> risk res \<and> risk res \<le> 100 \<and> 0 \<le> eligibility res \<and> eligibility res \<le> 100)"
  using evaluate_credit_risk_bounds [of 0 10 20000000] by simp

subsection \<open>The invariant of the rule base\<close>

lemma weighted_loop_error: "weighted_loop vars v rr acc = Inl e \<Longrightarrow> e = KeyError"
proof (induction vars v rr acc rule: weighted_loop.induct)
  case (1 vars output_var acc)
  then show ?case by simp
next
  case (2 vars output_var rule firing_strength rest weighted_sum weight_sum)
  then show ?case
    by (auto simp: Let_def split: if_splits option.splits)
qed

lemma outputs_loop_error: "outputs_loop vars rr ovs result = Inl e \<Longrightarrow> e = KeyError"
proof (induction ovs arbitrary: result)
  case Nil
  then show ?case by simp
next
  case (Cons ov ovs)
  then show ?case
    by (auto split: sum.splits if_splits option.splits prod.splits dest: weighted_loop_error)
qed

text \<open>
  Claim C8, as stated: a rule that names a term absent from its variable is rejected
  when the rule base is built, not at evaluation time. \<^verbatim>\<open>add_rule\<close> appends the rule
  without looking at it, and \<^verbatim>\<open>FuzzyRule.__init__\<close> only stores its arguments: the rule
  \<open>unknown_term_rule\<close> is accepted, and the missing term is found by \<open>evaluate\<close>, which
  raises \<^verbatim>\<open>KeyError\<close>.
\<close>

theorem unchecked_rule_counterexample:
  "\<not> rule_wellformed create_credit_risk_fis unknown_term_rule \<and>
   rules (add_rule create_credit_risk_fis unknown_term_rule) =
     rules create_credit_risk_fis @ [unknown_term_rule] \<and>
   evaluate (add_rule create_credit_risk_fis unknown_term_rule)
     [''income'' \<mapsto> 8000000, ''dependents'' \<mapsto> 1, ''credit_history'' \<mapsto> 8] = Inl KeyError"
  by (simp add: add_rule_def unknown_term_rule_def rule_wellformed_def consequent_mf_def
      engine_defs)

text \<open>
  Claim C8, amended: the engine built by \<open>create_credit_risk_fis\<close> has six rules, and
  each names an output variable of the engine that is a key of \<open>variables\<close> and a term
  that is a key of that variable's membership functions (\<open>rule_wellformed\<close>).
  \<^verbatim>\<open>add_rule\<close> checks nothing: it appends any rule and leaves the variables unchanged.
  A rule that names a term absent from an output variable is found at evaluation
  time: when every antecedent returns and that rule fires, \<open>evaluate\<close> raises
  \<^verbatim>\<open>KeyError\<close>.
\<close>

theorem rule_base_invariant:
  "length (rules create_credit_risk_fis) = 6 \<and>
   (\<forall>rule\<in>set (rules create_credit_risk_fis). rule_wellformed create_credit_risk_fis rule) \<and>
   rules (add_rule fis rule) = rules fis @ [rule] \<and>
   variables (add_rule fis rule) = variables fis \<and>
   output_variables (add_rule fis rule) = output_variables fis \<and>
   ((\<forall>r\<in>set (rules fis). \<exists>s. FuzzyRule_evaluate r inp = Inr s) \<and>
    FuzzyRule_evaluate rule inp = Inr fs \<and> 0 < fs \<and>
    consequent_var rule \<in> set (output_variables fis) \<and>
    consequent_mf (variables fis) (consequent_var rule) rule = None
      \<longrightarrow> evaluate (add_rule fis rule) inp = Inl KeyError)"
proof -
  have six: "length (rules create_credit_risk_fis) = 6"
    by (simp add: fis_simps credit_rules_def)
  have wf: "\<forall>rule\<in>set (rules create_credit_risk_fis). rule_wellformed create_credit_risk_fis rule"
    by (simp add: fis_simps credit_rules_def FuzzyRule_init_def rule_wellformed_def
        consequent_mf_def risk_var_mfs eligibility_var_mfs)
  have late: "evaluate (add_rule fis rule) inp = Inl KeyError"
    if all: "\<forall>r\<in>set (rules fis). \<exists>s. FuzzyRule_evaluate r inp = Inr s"
      and fs: "FuzzyRule_evaluate rule inp = Inr fs" "0 < fs"
      and out: "consequent_var rule \<in> set (output_variables fis)"
      and none: "consequent_mf (variables fis) (consequent_var rule) rule = None"
  proof -
    let ?fis = "add_rule fis rule"
    let ?rr = "firing_strengths (rules ?fis) inp"
    have "rule_results_loop (rules ?fis) inp = Inr ?rr"
      using all fs(1) by (simp add: rule_results_loop_Inr_iff add_rule_def)
    then have ev: "evaluate ?fis inp =
        outputs_loop (variables ?fis) ?rr (output_variables ?fis) Map.empty"
      by (simp add: evaluate_def)
    have "(rule, fs) \<in> set ?rr"
      using fs(1) by (simp add: firing_strengths_def add_rule_def)
    moreover have "fires (consequent_var rule) (rule, fs)"
      using fs(2) by (simp add: fires_def)
    ultimately have "\<not> output_ok (variables ?fis) ?rr (consequent_var rule)"
      using none by (auto simp: output_ok_def add_rule_def)
    with out have "\<nexists>res. evaluate ?fis inp = Inr res"
      unfolding ev by (auto simp: outputs_loop_Inr_iff add_rule_def)
    then obtain e where e: "evaluate ?fis inp = Inl e"
      by (cases "evaluate ?fis inp") auto
    from e [unfolded ev] have "e = KeyError" by (rule outputs_loop_error)
    with e show ?thesis by simp
  qed
  show ?thesis using six wf late by (simp add: add_rule_def)
qed

theorem rule_base_invariant_witness:
  "FuzzyRule_init rule1_antecedent ''risk'' ''low'' \<in> set (rules create_credit_risk_fis) \<and>
   rule_wellformed create_credit_risk_fis (FuzzyRule_init rule1_antecedent ''risk'' ''low'') \<and>
   FuzzyRule_evaluate unknown_term_rule
      [''income'' \<mapsto> 2000000, ''dependents'' \<mapsto> 5, ''credit_history'' \<mapsto> 2] = Inr 1 \<and>
   (0::real) < 1 \<and>
   consequent_var unknown_term_rule \<in> set (output_variables create_credit_risk_fis) \<and>
   consequent_mf (variables create_credit_risk_fis) (consequent_var unknown_term_rule)
      unknown_term_rule = None \<and>
   evaluate (add_rule create_credit_risk_fis unknown_term_rule)
      [''income'' \<mapsto> 2000000, ''dependents'' \<mapsto> 5, ''credit_history'' \<mapsto> 2] = Inl KeyError"
proof -
  let ?inp = "[''income'' \<mapsto> 2000000, ''dependents'' \<mapsto> 5, ''credit_history'' \<mapsto> (2::real)]"
  have m: "FuzzyRule_init rule1_antecedent ''risk'' ''low'' \<in> set (rules create_credit_risk_fis)"
    by (simp add: fis_simps credit_rules_def)
  have a: "\<forall>r\<in>set (rules create_credit_risk_fis). \<exists>s. FuzzyRule_evaluate r ?inp = Inr s"
    by (simp add: engine_defs)
  have f: "FuzzyRule_evaluate unknown_term_rule ?inp = Inr 1"
    by (simp add: unknown_term_rule_def FuzzyRule_init_def FuzzyRule_evaluate_def)
  have o: "consequent_var unknown_term_rule \<in> set (output_variables create_credit_risk_fis)"
    by (simp add: unknown_term_rule_def FuzzyRule_init_def fis_simps)
  have n: "consequent_mf (variables create_credit_risk_fis) (consequent_var unknown_term_rule)
      unknown_term_rule = None"
    by (simp add: unknown_term_rule_def FuzzyRule_init_def fis_simps consequent_mf_def risk_var_mfs)
  from rule_base_invariant [of create_credit_risk_fis unknown_term_rule ?inp 1] m a f o n
  show ?thesis by simp
qed

subsection \<open>Membership curves\<close>

lemma linspace_negative: "num < 0 \<Longrightarrow> linspace start stop num = Inl NegativeSamples"
  by (simp add: linspace_def)

lemma linspace_closed:
  assumes "0 \<le> num"
  shows "linspace start stop num =
           Inr (map (\<lambda>i. real i * ((stop - start) / real (nat num - 1)) + start) [0..<nat num])"
proof (cases "nat num > 1")
  case False
  then have "nat num = 0 \<or> nat num = 1" by arith
  then show ?thesis using assms by (auto simp: linspace_def Let_def)
next
  case True
  let ?n = "nat num"
  let ?y = "map (\<lambda>i. real i * ((stop - start) / real (?n - 1)) + start) [0..<?n]"
  have "real (?n - 1) \<noteq> 0" using True by simp
  then have "?y ! (?n - 1) = stop" using True by simp
  then have "?y[?n - 1 := stop] = ?y"
    using True by (simp add: list_update_same_conv)
  then show ?thesis using assms True by (simp add: linspace_def Let_def)
qed

lemma sorted_wrt_map_upt:
  "(\<And>i j. i < j \<Longrightarrow> f i < (f j :: real)) \<Longrightarrow> sorted_wrt (<) (map f [0..<n])"
  by (simp add: sorted_wrt_map sorted_wrt_iff_nth_less)

lemma linspace_props:
  assumes "0 \<le> num" and "start < stop"
  shows "\<exists>xs. linspace start stop num = Inr xs \<and> length xs = nat num \<and> sorted_wrt (<) xs \<and>
           (1 \<le> num \<longrightarrow> hd xs = start) \<and> (2 \<le> num \<longrightarrow> last xs = stop)"
proof -
  let ?n = "nat num"
  let ?step = "(stop - start) / real (?n - 1)"
  let ?xs = "map (\<lambda>i. real i * ?step + start) [0..<?n]"
  have l: "linspace start stop num = Inr ?xs" using assms(1) by (rule linspace_closed)
  have len: "length ?xs = ?n" by simp
  have srt: "sorted_wrt (<) ?xs"
  proof (cases "?n > 1")
    case False
    then have "?n = 0 \<or> ?n = 1" by arith
    then show ?thesis by auto
  next
    case True
    then have "0 < ?step" using assms(2) by simp
    have "real i * ?step + start < real j * ?step + start" if "i < j" for i j
    proof -
      from that have "real i < real j" by simp
      then have "real i * ?step < real j * ?step"
        using \<open>0 < ?step\<close> by (rule mult_strict_right_mono)
      then show ?thesis by simp
    qed
    then show ?thesis by (intro sorted_wrt_map_upt)
  qed
  have h: "hd ?xs = start" if "1 \<le> num"
  proof -
    from that have "0 < ?n" by simp
    then have "hd ?xs = ?xs ! 0" by (simp add: hd_conv_nth)
    also have "\<dots> = start" using \<open>0 < ?n\<close> by simp
    finally show ?thesis .
  qed
  have la: "last ?xs = stop" if "2 \<le> num"
  proof -
    from that have n: "1 < ?n" by simp
    then have "last ?xs = ?xs ! (?n - 1)" by (simp add: last_conv_nth)
    also have "\<dots> = stop" using n by simp
    finally show ?thesis .
  qed
  from l len srt h la show ?thesis by blast
qed

lemma point_loop_closed:
  assumes "distinct (map fst mfs)"
  shows "\<exists>pt. point_loop mfs x init = Inr pt \<and>
           (\<forall>t. map_of pt t =
              (case map_of mfs t of
                 Some mf \<Rightarrow> Some (projr (mf_evaluate mf x))
               | None \<Rightarrow> map_of init t))"
  using assms
proof (induction mfs arbitrary: init)
  case Nil
  then show ?case by simp
next
  case (Cons a mfs)
  obtain n mf where a: "a = (n, mf)" by (cases a)
  obtain deg where deg: "mf_evaluate mf x = Inr deg" using mf_evaluate_total by blast
  from Cons.prems a have d: "distinct (map fst mfs)" and n: "n \<notin> fst ` set mfs" by auto
  from n have none: "map_of mfs n = None" by (simp add: map_of_eq_None_iff)
  from Cons.IH [OF d, of "AList.update n deg init"]
  obtain pt where pt: "point_loop mfs x (AList.update n deg init) = Inr pt"
    and m: "\<forall>t. map_of pt t =
              (case map_of mfs t of
                 Some mf \<Rightarrow> Some (projr (mf_evaluate mf x))
               | None \<Rightarrow> map_of (AList.update n deg init) t)"
    by blast
  have "point_loop (a # mfs) x init = Inr pt" using a deg pt by simp
  moreover have "map_of pt t =
              (case map_of (a # mfs) t of
                 Some mf \<Rightarrow> Some (projr (mf_evaluate mf x))
               | None \<Rightarrow> map_of init t)" for t
    using m [rule_format, of t] a deg none
    by (auto simp: update_conv' split: option.splits)
  ultimately show ?case by blast
qed

lemma data_loop_closed:
  assumes d: "distinct (map fst mfs)" and nx: "''x'' \<notin> fst ` set mfs"
  shows "\<exists>data. data_loop mfs xs = Inr data \<and> map x_of data = xs \<and>
           (\<forall>p\<in>set data. \<forall>(t, mf)\<in>set mfs.
              \<exists>deg. mf_evaluate mf (x_of p) = Inr deg \<and> map_of p t = Some deg)"
proof (induction xs)
  case Nil
  show ?case by simp
next
  case (Cons x xs)
  then obtain data where data: "data_loop mfs xs = Inr data" "map x_of data = xs"
    and terms: "\<forall>p\<in>set data. \<forall>(t, mf)\<in>set mfs.
              \<exists>deg. mf_evaluate mf (x_of p) = Inr deg \<and> map_of p t = Some deg"
    by blast
  from point_loop_closed [OF d, of x "[(''x'', x)]"]
  obtain pt where pt: "point_loop mfs x [(''x'', x)] = Inr pt"
    and m: "\<forall>t. map_of pt t =
              (case map_of mfs t of
                 Some mf \<Rightarrow> Some (projr (mf_evaluate mf x))
               | None \<Rightarrow> map_of [(''x'', x)] t)"
    by blast
  from nx have "map_of mfs ''x'' = None" by (simp add: map_of_eq_None_iff)
  with m have xo: "x_of pt = x" by (simp add: x_of_def)
  have tm: "\<exists>deg. mf_evaluate mf (x_of pt) = Inr deg \<and> map_of pt t = Some deg"
    if "(t, mf) \<in> set mfs" for t mf
  proof -
    from that d have "map_of mfs t = Some mf" by simp
    with m have "map_of pt t = Some (projr (mf_evaluate mf x))" by simp
    moreover obtain deg where "mf_evaluate mf x = Inr deg" using mf_evaluate_total by blast
    ultimately show ?thesis using xo by simp
  qed
  have A: "data_loop mfs (x # xs) = Inr (pt # data)" using pt data(1) by simp
  have B: "map x_of (pt # data) = x # xs" using xo data(2) by simp
  have C: "\<forall>p\<in>set (pt # data). \<forall>(t, mf)\<in>set mfs.
              \<exists>deg. mf_evaluate mf (x_of p) = Inr deg \<and> map_of p t = Some deg"
    using tm terms by auto
  from A B C
  have "data_loop mfs (x # xs) = Inr (pt # data) \<and> map x_of (pt # data) = x # xs \<and>
     (\<forall>p\<in>set (pt # data). \<forall>(t, mf)\<in>set mfs.
              \<exists>deg. mf_evaluate mf (x_of p) = Inr deg \<and> map_of p t = Some deg)"
    by (intro conjI)
  then show ?case by (rule exI [of _ "pt # data"])
qed

lemma known_variable:
  assumes "n \<in> {''income'', ''dependents'', ''credit_history'', ''risk'', ''eligibility''}"
  shows "\<exists>var. map_of (variables create_credit_risk_fis) n = Some var \<and>
           distinct (map fst (membership_functions var)) \<and>
           ''x'' \<notin> fst ` set (membership_functions var) \<and>
           fst (var_range var) < snd (var_range var)"
  using assms
  by (auto simp: fis_simps income_var_mfs dependents_var_mfs credit_history_var_mfs
      risk_var_mfs eligibility_var_mfs var_ranges)

lemma unknown_variable:
  assumes "n \<notin> {''income'', ''dependents'', ''credit_history'', ''risk'', ''eligibility''}"
  shows "map_of (variables create_credit_risk_fis) n = None"
  using assms by (simp add: fis_simps)

text \<open>
  Claim C9, as stated: for a defined variable the call returns \<open>num_points\<close> points
  whose last \<open>x\<close> is the maximum of the range, and it fails exactly when the name is
  unknown. With \<open>num_points = 1\<close> the only point of \<open>income\<close> is at \<open>x = 0\<close>, the
  minimum of the range, not at 20,000,000; with a negative \<open>num_points\<close> the call fails
  for the defined name \<open>income\<close>, with the error of \<^verbatim>\<open>numpy.linspace\<close>.
\<close>

theorem membership_curve_counterexample:
  "generate_membership_function_data ''income'' 1 =
     Inr [[(''x'', 0), (''low'', 0), (''medium'', 0), (''high'', 0)]] \<and>
   var_range income_var = (0, 20000000) \<and>
   x_of (last [[(''x'', 0), (''low'', 0), (''medium'', 0), (''high'', 0)]])
     \<noteq> snd (var_range income_var) \<and>
   generate_membership_function_data ''income'' (- 1) = Inl NegativeSamples"
  by (simp add: generate_membership_function_data_def fis_simps linspace_def var_ranges
      income_var_mfs x_of_def)

text \<open>
  Claim C9, amended: \<open>generate_membership_function_data\<close> fails with the unknown-variable
  error when the name is not one of the five defined names, whatever \<open>num_points\<close>
  is. For a defined name and \<open>num_points \<ge> 0\<close> it returns exactly \<open>num_points\<close> points in
  strictly increasing \<open>x\<close> order, each carrying the degree of every term of the
  variable at its \<open>x\<close>; the first \<open>x\<close> is the minimum of the range when
  \<open>num_points \<ge> 1\<close> and the last \<open>x\<close> is the maximum of the range when
  \<open>num_points \<ge> 2\<close>. For a defined name and a negative \<open>num_points\<close> it fails with the
  error of \<^verbatim>\<open>numpy.linspace\<close>. In particular \<open>income\<close> with 100 points gives 100
  points from 0 to 20,000,000.
\<close>

theorem membership_curve:
  "(variable_name \<notin> {''income'', ''dependents'', ''credit_history'', ''risk'', ''eligibility''} \<longrightarrow>
      generate_membership_function_data variable_name num_points =
        Inl (UnknownVariable variable_name)) \<and>
   (variable_name \<in> {''income'', ''dependents'', ''credit_history'', ''risk'', ''eligibility''} \<and>
    num_points < 0 \<longrightarrow>
      generate_membership_function_data variable_name num_points = Inl NegativeSamples) \<and>
   (variable_name \<in> {''income'', ''dependents'', ''credit_history'', ''risk'', ''eligibility''} \<and>
    0 \<le> num_points \<longrightarrow>
      (\<exists>data var.
         map_of (variables create_credit_risk_fis) variable_name = Some var \<and>
         generate_membership_function_data variable_name num_points = Inr data \<and>
         length data = nat num_points \<and>
         sorted_wrt (<) (map x_of data) \<and>
         (1 \<le> num_points \<longrightarrow> x_of (hd data) = fst (var_range var)) \<and>
         (2 \<le> num_points \<longrightarrow> x_of (last data) = snd (var_range var)) \<and>
         (\<forall>p\<in>set data. \<forall>(t, mf)\<in>set (membership_functions var).
            \<exists>deg. mf_evaluate mf (x_of p) = Inr deg \<and> map_of p t = Some deg)))"
proof (intro conjI impI)
  assume "variable_name \<notin> {''income'', ''dependents'', ''credit_history'', ''risk'', ''eligibility''}"
  then have "map_of (variables create_credit_risk_fis) variable_name = None"
    by (rule unknown_variable)
  then show "generate_membership_function_data variable_name num_points =
        Inl (UnknownVariable variable_name)"
    by (simp add: generate_membership_function_data_def)
next
  assume "variable_name \<in> {''income'', ''dependents'', ''credit_history'', ''risk'', ''eligibility''} \<and>
    num_points < 0"
  then have k: "variable_name \<in> {''income'', ''dependents'', ''credit_history'', ''risk'', ''eligibility''}"
    and neg: "num_points < 0"
    by (rule conjunct1, rule conjunct2)
  from known_variable [OF k]
  obtain var where "map_of (variables create_credit_risk_fis) variable_name = Some var"
    by (elim exE conjE)
  with neg show "generate_membership_function_data variable_name num_points = Inl NegativeSamples"
    by (simp add: generate_membership_function_data_def linspace_negative)
next
  assume a: "variable_name \<in> {''income'', ''dependents'', ''credit_history'', ''risk'', ''eligibility''} \<and>
    0 \<le> num_points"
  then have k: "variable_name \<in> {''income'', ''dependents'', ''credit_history'', ''risk'', ''eligibility''}"
    and n: "0 \<le> num_points"
    by (rule conjunct1, rule conjunct2)
  from known_variable [OF k]
  obtain var where var: "map_of (variables create_credit_risk_fis) variable_name = Some var"
    and d: "distinct (map fst (membership_functions var))"
    and nx: "''x'' \<notin> fst ` set (membership_functions var)"
    and r: "fst (var_range var) < snd (var_range var)"
    by (elim exE conjE)
  from linspace_props [OF n r]
  obtain xs where xs: "linspace (fst (var_range var)) (snd (var_range var)) num_points = Inr xs"
    and len: "length xs = nat num_points" and srt: "sorted_wrt (<) xs"
    and h: "1 \<le> num_points \<longrightarrow> hd xs = fst (var_range var)"
    and l: "2 \<le> num_points \<longrightarrow> last xs = snd (var_range var)"
    by (elim exE conjE)
  from data_loop_closed [OF d nx, of xs]
  obtain data where data: "data_loop (membership_functions var) xs = Inr data"
    and mx: "map x_of data = xs"
    and terms: "\<forall>p\<in>set data. \<forall>(t, mf)\<in>set (membership_functions var).
              \<exists>deg. mf_evaluate mf (x_of p) = Inr deg \<and> map_of p t = Some deg"
    by (elim exE conjE)
  have g: "generate_membership_function_data variable_name num_points = Inr data"
    using var xs data by (simp add: generate_membership_function_data_def)
  have ld: "length data = nat num_points"
    using mx len by (metis length_map)
  have sd: "sorted_wrt (<) (map x_of data)" using mx srt by simp
  have hd: "1 \<le> num_points \<longrightarrow> x_of (hd data) = fst (var_range var)"
  proof
    assume one: "1 \<le> num_points"
    with ld have "data \<noteq> []" by auto
    then have "x_of (hd data) = hd (map x_of data)" by (simp add: hd_map)
    with mx h one show "x_of (hd data) = fst (var_range var)" by simp
  qed
  have la: "2 \<le> num_points \<longrightarrow> x_of (last data) = snd (var_range var)"
  proof
    assume two: "2 \<le> num_points"
    with ld have "data \<noteq> []" by auto
    then have "x_of (last data) = last (map x_of data)" by (simp add: last_map)
    with mx l two show "x_of (last data) = snd (var_range var)" by simp
  qed
  from var g ld sd hd la terms
  have "map_of (variables create_credit_risk_fis) variable_name = Some var \<and>
         generate_membership_function_data variable_name num_points = Inr data \<and>
         length data = nat num_points \<and>
         sorted_wrt (<) (map x_of data) \<and>
         (1 \<le> num_points \<longrightarrow> x_of (hd data) = fst (var_range var)) \<and>
         (2 \<le> num_points \<longrightarrow> x_of (last data) = snd (var_range var)) \<and>
         (\<forall>p\<in>set data. \<forall>(t, mf)\<in>set (membership_functions var).
            \<exists>deg. mf_evaluate mf (x_of p) = Inr deg \<and> map_of p t = Some deg)"
    by (intro conjI)
  then show "\<exists>data var.
         map_of (variables create_credit_risk_fis) variable_name = Some var \<and>
         generate_membership_function_data variable_name num_points = Inr data \<and>
         length data = nat num_points \<and>
         sorted_wrt (<) (map x_of data) \<and>
         (1 \<le> num_points \<longrightarrow> x_of (hd data) = fst (var_range var)) \<and>
         (2 \<le> num_points \<longrightarrow> x_of (last data) = snd (var_range var)) \<and>
         (\<forall>p\<in>set data. \<forall>(t, mf)\<in>set (membership_functions var).
            \<exists>deg. mf_evaluate mf (x_of p) = Inr deg \<and> map_of p t = Some deg)"
    by (intro exI)
qed

theorem membership_curve_witness:
  "''age'' \<notin> {''income'', ''dependents'', ''credit_history'', ''risk'', ''eligibility''} \<and>
   generate_membership_function_data ''age'' 100 = Inl (UnknownVariable ''age'') \<and>
   ''income'' \<in> {''income'', ''dependents'', ''credit_history'', ''risk'', ''eligibility''} \<and>
   (- 5 :: int) < 0 \<and>
   generate_membership_function_data ''income'' (- 5) = Inl NegativeSamples \<and>
   (0 :: int) \<le> 100 \<and> (1 :: int) \<le> 100 \<and> (2 :: int) \<le> 100 \<and>
   (\<exists>data. generate_membership_function_data ''income'' 100 = Inr data \<and>
      length data = 100 \<and> data \<noteq> [] \<and> sorted_wrt (<) (map x_of data) \<and>
      x_of (hd data) = 0 \<and> x_of (last data) = 20000000 \<and>
      map_of (hd data) ''low'' = Some 0)"
proof -
  have v: "map_of (variables create_credit_risk_fis) ''income'' = Some income_var"
    by (simp add: fis_simps)
  have t: "(''low'', TrapezoidalMF ''low'' 0 0 2500000 3000000) \<in> set (membership_functions income_var)"
    by (simp add: income_var_mfs)
  from membership_curve [of "''age''" 100]
  have 1: "generate_membership_function_data ''age'' 100 = Inl (UnknownVariable ''age'')"
    by simp
  from membership_curve [of "''income''" "- 5"]
  have 2: "generate_membership_function_data ''income'' (- 5) = Inl NegativeSamples"
    by simp
  from membership_curve [of "''income''" 100] v
  obtain data where g: "generate_membership_function_data ''income'' 100 = Inr data"
    and len: "length data = nat 100" and srt: "sorted_wrt (<) (map x_of data)"
    and h: "x_of (hd data) = fst (var_range income_var)"
    and l: "x_of (last data) = snd (var_range income_var)"
    and terms: "\<forall>p\<in>set data. \<forall>(t, mf)\<in>set (membership_functions income_var).
            \<exists>deg. mf_evaluate mf (x_of p) = Inr deg \<and> map_of p t = Some deg"
    by auto
  from len have ne: "data \<noteq> []" by auto
  from terms t have tl: "\<forall>p\<in>set data.
      \<exists>deg. mf_evaluate (TrapezoidalMF ''low'' 0 0 2500000 3000000) (x_of p) = Inr deg \<and>
          map_of p ''low'' = Some deg"
    by blast
  from h have h0: "x_of (hd data) = 0" by (simp add: var_ranges)
  from ne have "hd data \<in> set data" by simp
  with tl h0 have lo: "map_of (hd data) ''low'' = Some 0" by fastforce
  from 1 2 g len srt h l ne lo show ?thesis by (simp add: var_ranges)
qed

end
